theory Spec2Isabelle
  imports Main "HOL-Library.Word"
begin

section \<open>Escape-sequence multiplexer (cmd/ttyc/handlers/stdfds.go)\<close>

type_synonym byte = "8 word"
type_synonym bytes = "byte list"

subsection \<open>Constants\<close>

definition EscapeChar :: byte where "EscapeChar = 0x14"
definition HelpChar :: byte where "HelpChar = 0x3F"
definition QuitChar :: byte where "QuitChar = 0x71"
definition ConfigChar :: byte where "ConfigChar = 0x63"
definition DetectBaudChar :: byte where "DetectBaudChar = 0x62"
definition ClearChar :: byte where "ClearChar = 0x6C"
definition CtrlTChar :: byte where "CtrlTChar = 0x74"

text \<open>
  The type \<^verbatim>\<open>ttyc.Implementation\<close> is declared outside the files at hand; the handler
  only compares it with \<^verbatim>\<open>ttyc.ImplementationWiSe\<close>, so every other value is one
  constructor here.
\<close>

datatype Implementation = ImplementationWiSe | ImplementationOther

text \<open>
  Of the fields of \<^verbatim>\<open>stdfdsHandler\<close> the chunk loop reads \<^verbatim>\<open>implementation\<close> and
  reads and writes \<^verbatim>\<open>expectingCommand\<close>; the others (client, console, URLs,
  credentials, server name) only feed the text that the configuration command prints.
\<close>

record stdfdsHandler =
  implementation :: Implementation
  expectingCommand :: bool

text \<open>
  What a run of the handler does, in program order: each call of \<^verbatim>\<open>handleCommand\<close>
  with its argument, the chunks sent on \<^verbatim>\<open>outChan\<close>, the errors sent on
  \<^verbatim>\<open>errChan\<close>, the call into the engine, and the terminal output (one event per
  block of prints; the wording of the text is not modelled). A send is recorded when it
  is made; that it waits for its receiver is not modelled here.
\<close>

datatype effect =
    HandleCommand byte
  | Println
  | ErrChanSend string
  | PrintConfiguration
  | GetSttyAndPrint
  | PrintBaudRequested
  | RequestBaudrateDetection
  | PrintBaudUnsupported
  | PrintClear
  | PrintHelp
  | OutChanSend bytes

text \<open>
  The run-time panic of an index or a slice bound out of range. Go reports the two with
  different messages; the model does not tell them apart.
\<close>

datatype panic = OutOfRange

subsection \<open>handleCommand\<close>

text \<open>
  Returns the replacement bytes and what the call did, in order; the first event records
  the call itself.
\<close>

definition handleCommand :: "stdfdsHandler \<Rightarrow> byte \<Rightarrow> bytes \<times> effect list" where
  "handleCommand s command =
     (if command = QuitChar then
        ([], [HandleCommand command, Println, ErrChanSend ''quitting''])
      else if command = ConfigChar then
        ([], [HandleCommand command, Println, PrintConfiguration] @
             (if implementation s = ImplementationWiSe then [GetSttyAndPrint] else []))
      else if command = DetectBaudChar then
        ([], [HandleCommand command, Println] @
             (if implementation s = ImplementationWiSe
              then [PrintBaudRequested, RequestBaudrateDetection]
              else [PrintBaudUnsupported]))
      else if command = ClearChar then ([], [HandleCommand command, PrintClear])
      else if command = CtrlTChar then ([EscapeChar], [HandleCommand command])
      else if command = HelpChar then ([], [HandleCommand command, Println, PrintHelp])
      else ([], [HandleCommand command]))"

subsection \<open>handleStdin\<close>

text \<open>\<^verbatim>\<open>bytes.Index(input, []byte{c})\<close>: the first position of \<open>c\<close>, or \<open>-1\<close>.\<close>

fun bytes_Index :: "bytes \<Rightarrow> byte \<Rightarrow> int" where
  "bytes_Index [] c = - 1"
| "bytes_Index (x # xs) c =
     (if x = c then 0
      else (let r = bytes_Index xs c in if r < 0 then - 1 else r + 1))"

text \<open>
  The pending-command block of the loop body. It runs after \<open>escapePos\<close> has been
  computed on the chunk as read. \<^verbatim>\<open>input[0]\<close> panics on an empty chunk. The result is
  the handler, the spliced chunk, the adjusted \<open>escapePos\<close> and the effects.
\<close>

definition pendingCommand ::
  "stdfdsHandler \<Rightarrow> bytes \<Rightarrow> int \<Rightarrow> panic + (stdfdsHandler \<times> bytes \<times> int \<times> effect list)" where
  "pendingCommand s input escapePos =
     (if expectingCommand s then
        (case input of
           [] \<Rightarrow> Inl OutOfRange
         | c # rest \<Rightarrow>
             (let (replacement, effs) = handleCommand s c;
                  s' = s\<lparr>expectingCommand := False\<rparr>;
                  input' = replacement @ rest;
                  escapePos' = (if escapePos \<ge> 0
                                then escapePos + (1 - int (length replacement))
                                else escapePos)
              in Inr (s', input', escapePos', effs)))
      else Inr (s, input, escapePos, []))"

text \<open>
  The block that handles a new escape character, followed by the send on \<^verbatim>\<open>outChan\<close>.
  In the second branch Go checks \<^verbatim>\<open>input[:escapePos]\<close> against the capacity of the
  slice and \<^verbatim>\<open>input[escapePos]\<close>, on the next line, against its length; the length
  is at most the capacity, so the two lines get past both checks exactly when
  \<open>escapePos < len(input)\<close>. \<^verbatim>\<open>input[escapePos+2:]\<close> needs
  \<open>escapePos + 2 \<le> len(input)\<close>.
\<close>

definition newEscape ::
  "stdfdsHandler \<Rightarrow> bytes \<Rightarrow> int \<Rightarrow> panic + (stdfdsHandler \<times> effect list)" where
  "newEscape s input escapePos =
     (if escapePos \<ge> 0 \<and> escapePos = int (length input) - 1 then
        (let s' = s\<lparr>expectingCommand := True\<rparr>
         in if length input = 1 then Inr (s', [])
            else Inr (s', [OutChanSend (take (length input - 1) input)]))
      else if escapePos \<ge> 0 then
        (if \<not> escapePos < int (length input) then Inl OutOfRange
         else if \<not> escapePos + 2 \<le> int (length input) then Inl OutOfRange
         else
           (let before = take (nat escapePos) input;
                command = input ! nat escapePos;
                after = drop (nat (escapePos + 2)) input;
                (replacement, effs) = handleCommand s command
            in Inr (s, effs @ [OutChanSend (before @ replacement @ after)])))
      else Inr (s, [OutChanSend input]))"

text \<open>One iteration of the loop of \<^verbatim>\<open>handleStdin\<close>, for the chunk read from \<^verbatim>\<open>inChan\<close>.\<close>

definition handleChunk ::
  "stdfdsHandler \<Rightarrow> bytes \<Rightarrow> panic + (stdfdsHandler \<times> effect list)" where
  "handleChunk s input =
     (let escapePos = bytes_Index input EscapeChar
      in case pendingCommand s input escapePos of
           Inl p \<Rightarrow> Inl p
         | Inr (s1, input1, escapePos1, effs1) \<Rightarrow>
             (case newEscape s1 input1 escapePos1 of
                Inl p \<Rightarrow> Inl p
              | Inr (s2, effs2) \<Rightarrow> Inr (s2, effs1 @ effs2)))"

text \<open>
  The loop, on the chunks that arrive on \<^verbatim>\<open>inChan\<close> before \<^verbatim>\<open>closeChan\<close> fires. A
  panic ends the run.
\<close>

fun handleStdin ::
  "stdfdsHandler \<Rightarrow> bytes list \<Rightarrow> panic + (stdfdsHandler \<times> effect list)" where
  "handleStdin s [] = Inr (s, [])"
| "handleStdin s (input # chunks) =
     (case handleChunk s input of
        Inl p \<Rightarrow> Inl p
      | Inr (s', effs) \<Rightarrow>
          (case handleStdin s' chunks of
             Inl p \<Rightarrow> Inl p
           | Inr (s'', effs') \<Rightarrow> Inr (s'', effs @ effs')))"

text \<open>\<^verbatim>\<open>NewStdFdsHandler\<close> starts with no command pending.\<close>

definition NewStdFdsHandler :: "Implementation \<Rightarrow> stdfdsHandler" where
  "NewStdFdsHandler impl = \<lparr>implementation = impl, expectingCommand = False\<rparr>"

text \<open>
  Three readings of a run: the chunks forwarded to the engine's input port, the arguments
  of the calls of \<^verbatim>\<open>handleCommand\<close>, and the side effects of the commands (all
  the other events).
\<close>

fun forwarded :: "effect list \<Rightarrow> bytes list" where
  "forwarded [] = []"
| "forwarded (OutChanSend b # es) = b # forwarded es"
| "forwarded (e # es) = forwarded es"

fun commandsHandled :: "effect list \<Rightarrow> byte list" where
  "commandsHandled [] = []"
| "commandsHandled (HandleCommand c # es) = c # commandsHandled es"
| "commandsHandled (e # es) = commandsHandled es"

fun sideEffects :: "effect list \<Rightarrow> effect list" where
  "sideEffects [] = []"
| "sideEffects (OutChanSend b # es) = sideEffects es"
| "sideEffects (HandleCommand c # es) = sideEffects es"
| "sideEffects (e # es) = e # sideEffects es"

text \<open>
  The split-trigger equivalence as the specification words it: the two reads
  \<open>[prefix..., TRIGGER]\<close>, \<open>[CMD, suffix...]\<close> and the single read
  \<open>[prefix..., TRIGGER, CMD, suffix...]\<close> forward the same bytes and have the same side
  effects.
\<close>

definition splitEquivalent :: "stdfdsHandler \<Rightarrow> bytes \<Rightarrow> byte \<Rightarrow> bytes \<Rightarrow> bool" where
  "splitEquivalent s prefix CMD suffix =
     (case (handleStdin s [prefix @ [EscapeChar], CMD # suffix],
            handleStdin s [prefix @ [EscapeChar] @ CMD # suffix]) of
        (Inr (s2, effs2), Inr (s1, effs1)) \<Rightarrow>
          concat (forwarded effs2) = concat (forwarded effs1) \<and>
          sideEffects effs2 = sideEffects effs1
      | _ \<Rightarrow> False)"

text \<open>
  Steps 1 and 2 of the chunk processing as the specification words them: the pending
  command is handled first, and the chunk with the substitution spliced in is then
  scanned for the trigger. This is not the source: it differs from \<open>handleChunk\<close> in
  the chunk that is scanned, and is here to be compared with it.
\<close>

definition spec_scanAfterSplice ::
  "stdfdsHandler \<Rightarrow> bytes \<Rightarrow> panic + (stdfdsHandler \<times> effect list)" where
  "spec_scanAfterSplice s input =
     (case pendingCommand s input (- 1) of
        Inl p \<Rightarrow> Inl p
      | Inr (s1, input1, unused, effs1) \<Rightarrow>
          (case newEscape s1 input1 (bytes_Index input1 EscapeChar) of
             Inl p \<Rightarrow> Inl p
           | Inr (s2, effs2) \<Rightarrow> Inr (s2, effs1 @ effs2)))"

section \<open>Protocol engine (ws/protocol.go)\<close>

subsection \<open>Message tags\<close>

definition MsgInput :: byte where "MsgInput = 0x30"
definition MsgResizeTerminal :: byte where "MsgResizeTerminal = 0x31"
definition MsgPause :: byte where "MsgPause = 0x32"
definition MsgResume :: byte where "MsgResume = 0x33"
definition MsgJsonData :: byte where "MsgJsonData = 0x7B"
definition MsgDetectBaudrate :: byte where "MsgDetectBaudrate = 0x42"
definition MsgOutput :: byte where "MsgOutput = 0x30"
definition MsgSetWindowTitle :: byte where "MsgSetWindowTitle = 0x31"
definition MsgPreferences :: byte where "MsgPreferences = 0x32"
definition MsgServerPause :: byte where "MsgServerPause = 0x53"
definition MsgServerResume :: byte where "MsgServerResume = 0x51"

subsection \<open>Errors, panics and the ways a call can end\<close>

text \<open>
  \<open>Errorf\<close> is an error made by \<^verbatim>\<open>fmt.Errorf\<close>, \<open>TransportError\<close> one returned by the
  websocket connection, \<open>ErrSyntax\<close> and \<open>ErrRange\<close> the two errors of
  \<^verbatim>\<open>strconv.ParseInt\<close>.
\<close>

datatype go_error = Errorf string | TransportError nat | ErrSyntax | ErrRange

datatype gopanic =
    CloseOfNilChannel
  | CloseOfClosedChannel
  | SendOnClosedChannel
  | UnlockOfUnlockedMutex
  | NilPointerDereference

text \<open>Where a goroutine of the engine can park: a channel send or the flow-control lock.\<close>

datatype blockpoint =
    SendOutput bytes
  | SendWinTitle bytes
  | SendBaud int
  | SendError go_error
  | LockForPause
  | LockForWrite bytes

text \<open>
  \<open>Done\<close>: the call returned, or the loop iteration ended and the loop goes on.
  \<open>Exit\<close>: the loop function returned. \<open>Blocked\<close>: the goroutine is parked at the
  block point, in the state given. \<open>Panic\<close>: a run-time panic. \<open>Spins\<close>: a loop that
  never ends.
\<close>

datatype 'a outcome = Done 'a | Exit 'a | Blocked blockpoint 'a | Panic gopanic | Spins

subsection \<open>Channels and the mutex\<close>

text \<open>
  A Go channel: the size of its buffer (\<^verbatim>\<open>make(chan T)\<close> has size 0), the buffered
  values, whether it is closed, and the number of receivers parked on it. \<open>taken\<close> lists
  the values that receivers have got from it, oldest first. The engine is the only
  sender on each of its ports, so no sender is parked on a port while the engine runs.
\<close>

record 'a chan =
  qsize :: nat
  queue :: "'a list"
  chClosed :: bool
  recvq :: nat
  taken :: "'a list"

definition makechan :: "nat \<Rightarrow> 'a chan" where
  "makechan n = \<lparr>qsize = n, queue = [], chClosed = False, recvq = 0, taken = []\<rparr>"

datatype 'a sent = Sent 'a | SendBlocks | SendPanics

text \<open>
  \<^verbatim>\<open>ch <- v\<close>: panics on a closed channel; hands the value to a parked receiver;
  else buffers it when there is room; else blocks.
\<close>

definition chansend :: "'a chan \<Rightarrow> 'a \<Rightarrow> 'a chan sent" where
  "chansend ch v =
     (if chClosed ch then SendPanics
      else if 0 < recvq ch then Sent (ch\<lparr>recvq := recvq ch - 1, taken := taken ch @ [v]\<rparr>)
      else if length (queue ch) < qsize ch then Sent (ch\<lparr>queue := queue ch @ [v]\<rparr>)
      else SendBlocks)"

text \<open>
  \<^verbatim>\<open>select { case <-ch: default: }\<close>: a receive that does not wait. It gets a buffered
  value, or the zero value of a closed channel; otherwise the default case runs
  (\<open>None\<close>). The value is dropped.
\<close>

definition chanpoll :: "'a chan \<Rightarrow> 'a chan option" where
  "chanpoll ch =
     (case queue ch of
        x # xs \<Rightarrow> Some (ch\<lparr>queue := xs\<rparr>)
      | [] \<Rightarrow> if chClosed ch then Some ch else None)"

text \<open>
  The loops \<^verbatim>\<open>EmptyWinTitleChanLoop\<close> and \<^verbatim>\<open>EmptyBaudChanLoop\<close>: poll until the
  default case runs. On a closed channel the poll never fails and the loop never ends:
  the result is \<open>None\<close>.
\<close>

partial_function (option) drain :: "'a chan \<Rightarrow> 'a chan option" where
  "drain ch = (case chanpoll ch of Some ch' \<Rightarrow> drain ch' | None \<Rightarrow> Some ch)"

text \<open>A receive by a consumer of the port: takes a buffered value, or parks.\<close>

definition chanrecv :: "'a chan \<Rightarrow> 'a chan" where
  "chanrecv ch =
     (case queue ch of
        x # xs \<Rightarrow> ch\<lparr>queue := xs, taken := taken ch @ [x]\<rparr>
      | [] \<Rightarrow> ch\<lparr>recvq := recvq ch + 1\<rparr>)"

definition closechan :: "'a chan \<Rightarrow> gopanic + 'a chan" where
  "closechan ch =
     (if chClosed ch then Inl CloseOfClosedChannel
      else Inr (ch\<lparr>chClosed := True, recvq := 0\<rparr>))"

subsection \<open>The websocket connection\<close>

text \<open>
  The connection belongs to the websocket library. It is modelled by what the engine
  does to it (the messages written, the number of calls of \<^verbatim>\<open>Close\<close>) and by what it
  answers: \<open>writeErr\<close> is what \<^verbatim>\<open>WriteMessage\<close> returns, \<open>closeErr\<close> what
  \<^verbatim>\<open>Close\<close> returns. A failed write sends nothing.
\<close>

datatype msgtype = TextMessage | BinaryMessage | PingMessage

record conn =
  written :: "(msgtype \<times> bytes) list"
  closeCalls :: nat
  writeErr :: "go_error option"
  closeErr :: "go_error option"

definition WriteMessage :: "conn \<Rightarrow> msgtype \<Rightarrow> bytes \<Rightarrow> go_error option \<times> conn" where
  "WriteMessage ws t d =
     (case writeErr ws of
        None \<Rightarrow> (None, ws\<lparr>written := written ws @ [(t, d)]\<rparr>)
      | Some e \<Rightarrow> (Some e, ws))"

subsection \<open>The client\<close>

text \<open>
  The fields of \<^verbatim>\<open>Client\<close>. The exported channel fields are the same channels as the
  unexported ones and are left out. \<open>flowControl\<close> is the mutex (\<open>True\<close>: locked).
  \<open>WsClient\<close> and \<open>shutdown\<close> are nil until \<^verbatim>\<open>Redial\<close> sets them. The last two fields
  are not fields of the struct: \<open>dials\<close> counts the calls of \<^verbatim>\<open>dialer.Dial\<close> and
  \<open>printed\<close> lists the messages printed with \<^verbatim>\<open>ttyc.TtycAngryPrintf\<close>. The calls
  of \<^verbatim>\<open>ttyc.Trace()\<close> are left out.
\<close>

record client =
  WsClient :: "conn option"
  winTitle :: "bytes chan"
  detectedBaudrate :: "int chan"
  "output" :: "bytes chan"
  input :: "bytes chan"
  flowControl :: bool
  flowControlEngaged :: bool
  pong :: "unit chan"
  error :: "go_error chan"
  toWs :: "bytes chan"
  fromWs :: "bytes chan"
  shutdown :: "unit chan option"
  closeChan :: "unit chan"
  isShutdown :: bool
  closed :: bool
  dials :: nat
  printed :: "string list"

text \<open>The struct literal of \<^verbatim>\<open>DialAndAuth\<close>.\<close>

definition newClient :: client where
  "newClient =
     \<lparr>WsClient = None,
      winTitle = makechan 0,
      detectedBaudrate = makechan 0,
      output = makechan 0,
      input = makechan 0,
      flowControl = False,
      flowControlEngaged = False,
      pong = makechan 0,
      error = makechan 0,
      toWs = makechan 0,
      fromWs = makechan 0,
      shutdown = None,
      closeChan = makechan 0,
      isShutdown = True,
      closed = False,
      dials = 0,
      printed = []\<rparr>"

subsection \<open>Redial, DialAndAuth\<close>

text \<open>
  \<open>dial\<close> is what \<^verbatim>\<open>dialer.Dial\<close> returns when it is called (an error or a new
  connection), \<open>message\<close> the JSON of the authentication DTO.
\<close>

definition Redial :: "go_error + conn \<Rightarrow> bytes \<Rightarrow> client \<Rightarrow> go_error option \<times> client" where
  "Redial dial message c =
     (if closed c then (Some (Errorf ''not allowed to redial on closed client''), c)
      else
        (let c1 = c\<lparr>dials := dials c + 1\<rparr>
         in case dial of
              Inl err \<Rightarrow> (Some err, c1)
            | Inr wsClient \<Rightarrow>
                (case WriteMessage wsClient BinaryMessage message of
                   (Some err, ws) \<Rightarrow> (Some err, c1)
                 | (None, ws) \<Rightarrow>
                     (None, c1\<lparr>WsClient := Some ws,
                               shutdown := Some (makechan 0),
                               isShutdown := False\<rparr>))))"

definition DialAndAuth :: "go_error + conn \<Rightarrow> bytes \<Rightarrow> go_error + client" where
  "DialAndAuth dial message =
     (case Redial dial message newClient of
        (Some err, c) \<Rightarrow> Inl err
      | (None, c) \<Rightarrow> Inr c)"

subsection \<open>doShutdown, SoftClose, Close\<close>

definition doShutdown :: "go_error option \<Rightarrow> client \<Rightarrow> client outcome" where
  "doShutdown err c =
     (if \<not> isShutdown c then
        (case shutdown c of
           None \<Rightarrow> Panic CloseOfNilChannel
         | Some sh \<Rightarrow>
             (case closechan sh of
                Inl p \<Rightarrow> Panic p
              | Inr sh' \<Rightarrow>
                  (let c1 = c\<lparr>shutdown := Some sh', isShutdown := True\<rparr>
                   in if flowControlEngaged c1 \<and> \<not> flowControl c1
                      then Panic UnlockOfUnlockedMutex
                      else
                        (let c2 = (if flowControlEngaged c1
                                   then c1\<lparr>flowControlEngaged := False, flowControl := False\<rparr>
                                   else c1)
                         in case err of
                              None \<Rightarrow> Done c2
                            | Some e \<Rightarrow>
                                (case chansend (error c2) e of
                                   Sent ch \<Rightarrow> Done (c2\<lparr>error := ch\<rparr>)
                                 | SendBlocks \<Rightarrow> Blocked (SendError e) c2
                                 | SendPanics \<Rightarrow> Panic SendOnClosedChannel)))))
      else Done c)"

definition SoftClose :: "client \<Rightarrow> (go_error option \<times> client) outcome" where
  "SoftClose c =
     (if \<not> isShutdown c then
        Done (Some (Errorf
          ''can only soft-close in order to redial if the client is already shut down''), c)
      else
        (case WsClient c of
           None \<Rightarrow> Panic NilPointerDereference
         | Some ws \<Rightarrow>
             Done (closeErr ws, c\<lparr>WsClient := Some (ws\<lparr>closeCalls := closeCalls ws + 1\<rparr>)\<rparr>)))"

text \<open>
  The seven calls of \<^verbatim>\<open>close\<close> in \<^verbatim>\<open>Close\<close>, in the order of the source; the first
  one on a closed channel panics.
\<close>

definition closePorts :: "client \<Rightarrow> gopanic + client" where
  "closePorts c =
     (case closechan (closeChan c) of Inl p \<Rightarrow> Inl p | Inr ch1 \<Rightarrow>
      case closechan (winTitle c) of Inl p \<Rightarrow> Inl p | Inr ch2 \<Rightarrow>
      case closechan (output c) of Inl p \<Rightarrow> Inl p | Inr ch3 \<Rightarrow>
      case closechan (input c) of Inl p \<Rightarrow> Inl p | Inr ch4 \<Rightarrow>
      case closechan (error c) of Inl p \<Rightarrow> Inl p | Inr ch5 \<Rightarrow>
      case closechan (toWs c) of Inl p \<Rightarrow> Inl p | Inr ch6 \<Rightarrow>
      case closechan (fromWs c) of Inl p \<Rightarrow> Inl p | Inr ch7 \<Rightarrow>
        Inr (c\<lparr>closeChan := ch1, winTitle := ch2, output := ch3, input := ch4,
              error := ch5, toWs := ch6, fromWs := ch7\<rparr>))"

text \<open>
  \<^verbatim>\<open>doShutdown(nil)\<close> sends nothing, so of the ways it can end only \<open>Done\<close> and
  \<open>Panic\<close> occur here.
\<close>

definition Close :: "client \<Rightarrow> (go_error option \<times> client) outcome" where
  "Close c =
     (case doShutdown None c of
        Done c1 \<Rightarrow>
          (if closed c1 then Done (None, c1)
           else
             (case closePorts (c1\<lparr>closed := True\<rparr>) of
                Inl p \<Rightarrow> Panic p
              | Inr c2 \<Rightarrow> SoftClose c2))
      | Exit c1 \<Rightarrow> Exit (None, c1)
      | Blocked b c1 \<Rightarrow> Blocked b (None, c1)
      | Panic p \<Rightarrow> Panic p
      | Spins \<Rightarrow> Spins)"

subsection \<open>strconv.ParseInt(s, 10, 64)\<close>

text \<open>
  The library function, on the bytes of the string, for base 10 and 64 bits. The digit
  loop of \<^verbatim>\<open>ParseUint\<close> fails with a syntax error at the first byte that is not a
  decimal digit, and with a range error when the value leaves 64 bits; the cutoff
  \<open>1844674407370955162\<close> is \<open>maxUint64 / 10 + 1\<close>.
\<close>

definition isDigit :: "byte \<Rightarrow> bool" where
  "isDigit c = (0x30 \<le> c \<and> c \<le> 0x39)"

fun parseUintLoop :: "bytes \<Rightarrow> nat \<Rightarrow> go_error + nat" where
  "parseUintLoop [] n = Inr n"
| "parseUintLoop (c # cs) n =
     (if \<not> isDigit c then Inl ErrSyntax
      else if n \<ge> 1844674407370955162 then Inl ErrRange
      else (let n1 = n * 10 + unat (c - 0x30)
            in if n1 > 18446744073709551615 then Inl ErrRange
               else parseUintLoop cs n1))"

definition ParseUint :: "bytes \<Rightarrow> go_error + nat" where
  "ParseUint s = (if s = [] then Inl ErrSyntax else parseUintLoop s 0)"

text \<open>
  An optional sign, then \<^verbatim>\<open>ParseUint\<close>, then the signed range: \<open>2^63\<close> is
  \<open>9223372036854775808\<close>. Every error of \<^verbatim>\<open>ParseUint\<close> is an error of
  \<^verbatim>\<open>ParseInt\<close> of the same kind.
\<close>

definition ParseInt :: "bytes \<Rightarrow> go_error + int" where
  "ParseInt s =
     (case s of
        [] \<Rightarrow> Inl ErrSyntax
      | c # cs \<Rightarrow>
          (let neg = (c = 0x2D);
               digits = (if c = 0x2B \<or> c = 0x2D then cs else s)
           in case ParseUint digits of
                Inl err \<Rightarrow> Inl err
              | Inr un \<Rightarrow>
                  if \<not> neg \<and> un \<ge> 9223372036854775808 then Inl ErrRange
                  else if neg \<and> un > 9223372036854775808 then Inl ErrRange
                  else Inr (if neg then - int un else int un)))"

text \<open>The number that a string of decimal digits denotes.\<close>

definition decimalValue :: "bytes \<Rightarrow> nat" where
  "decimalValue ds = foldl (\<lambda>n c. n * 10 + unat (c - 0x30)) 0 ds"

subsection \<open>chanLoop\<close>

text \<open>The case that the \<^verbatim>\<open>select\<close> of \<^verbatim>\<open>chanLoop\<close> takes, with the value received.\<close>

datatype event =
    FromWs bytes
  | ToWs bytes
  | Input bytes
  | CloseChanReady
  | ShutdownReady

text \<open>
  \<^verbatim>\<open>WriteMessage(websocket.BinaryMessage, d)\<close> followed by the error check that both
  writing cases share: on an error, \<^verbatim>\<open>doShutdown(err)\<close> and return.
\<close>

definition writeFrame :: "bytes \<Rightarrow> client \<Rightarrow> client outcome" where
  "writeFrame d c =
     (case WsClient c of
        None \<Rightarrow> Panic NilPointerDereference
      | Some ws \<Rightarrow>
          (case WriteMessage ws BinaryMessage d of
             (None, ws') \<Rightarrow> Done (c\<lparr>WsClient := Some ws'\<rparr>)
           | (Some err, ws') \<Rightarrow>
               (case doShutdown (Some err) (c\<lparr>WsClient := Some ws'\<rparr>) of
                  Done c' \<Rightarrow> Exit c'
                | r \<Rightarrow> r)))"

text \<open>The \<^verbatim>\<open>switch data[0]\<close> of the case \<^verbatim>\<open>data := <-c.fromWs\<close>.\<close>

definition dispatch :: "byte \<Rightarrow> bytes \<Rightarrow> client \<Rightarrow> client outcome" where
  "dispatch tag payload c =
     (if tag = MsgOutput then
        (case chansend (output c) payload of
           Sent ch \<Rightarrow> Done (c\<lparr>output := ch\<rparr>)
         | SendBlocks \<Rightarrow> Blocked (SendOutput payload) c
         | SendPanics \<Rightarrow> Panic SendOnClosedChannel)
      else if tag = MsgServerPause then
        (if \<not> flowControlEngaged c then
           (let c1 = c\<lparr>flowControlEngaged := True\<rparr>
            in if flowControl c1 then Blocked LockForPause c1
               else Done (c1\<lparr>flowControl := True\<rparr>))
         else Done c)
      else if tag = MsgServerResume then
        (if flowControlEngaged c then
           (if flowControl c
            then Done (c\<lparr>flowControlEngaged := False, flowControl := False\<rparr>)
            else Panic UnlockOfUnlockedMutex)
         else Done c)
      else if tag = MsgSetWindowTitle then
        (case drain (winTitle c) of
           None \<Rightarrow> Spins
         | Some ch \<Rightarrow>
             (case chansend ch payload of
                Sent ch' \<Rightarrow> Done (c\<lparr>winTitle := ch'\<rparr>)
              | SendBlocks \<Rightarrow> Blocked (SendWinTitle payload) (c\<lparr>winTitle := ch\<rparr>)
              | SendPanics \<Rightarrow> Panic SendOnClosedChannel))
      else if tag = MsgDetectBaudrate then
        (case drain (detectedBaudrate c) of
           None \<Rightarrow> Spins
         | Some ch \<Rightarrow>
             (let c1 = c\<lparr>detectedBaudrate := ch\<rparr>
              in case ParseInt payload of
                   Inl err \<Rightarrow>
                     Done (c1\<lparr>printed := printed c1 @ [''unable to parse detected baudrate'']\<rparr>)
                 | Inr i \<Rightarrow>
                     (case chansend ch i of
                        Sent ch' \<Rightarrow> Done (c1\<lparr>detectedBaudrate := ch'\<rparr>)
                      | SendBlocks \<Rightarrow> Blocked (SendBaud i) c1
                      | SendPanics \<Rightarrow> Panic SendOnClosedChannel)))
      else Done c)"

text \<open>
  The body of the loop for the case taken. In the case of \<^verbatim>\<open>toWs\<close> the mutex is locked
  before the write and unlocked after it, so it is as before when the write is over;
  the case of \<^verbatim>\<open>input\<close> writes without touching the mutex.
\<close>

definition chanLoop_body :: "event \<Rightarrow> client \<Rightarrow> client outcome" where
  "chanLoop_body ev c =
     (case ev of
        FromWs data \<Rightarrow>
          (case data of
             [] \<Rightarrow> Done c
           | tag # payload \<Rightarrow> dispatch tag payload c)
      | ToWs data \<Rightarrow>
          (if data = [] then Done c
           else if flowControl c then Blocked (LockForWrite data) c
           else writeFrame data c)
      | Input data \<Rightarrow>
          (if data = [] then Done c
           else writeFrame (MsgInput # data) c)
      | CloseChanReady \<Rightarrow> Done c
      | ShutdownReady \<Rightarrow> Done c)"

text \<open>
  The loop, on the cases that the \<^verbatim>\<open>select\<close> takes one after the other. It stops at
  the first iteration that does not end, with the cases not yet taken. With no case
  left the loop waits in the \<^verbatim>\<open>select\<close> (\<open>Done\<close>).
\<close>

fun chanLoop :: "client \<Rightarrow> event list \<Rightarrow> client outcome \<times> event list" where
  "chanLoop c [] =
     (if \<not> closed c \<and> \<not> isShutdown c then (Done c, []) else (Exit c, []))"
| "chanLoop c (ev # evs) =
     (if \<not> closed c \<and> \<not> isShutdown c then
        (case chanLoop_body ev c of
           Done c' \<Rightarrow> chanLoop c' evs
         | r \<Rightarrow> (r, evs))
      else (Exit c, ev # evs))"

text \<open>
  A client as \<^verbatim>\<open>DialAndAuth\<close> returns it, over a connection that accepts every write
  and closes without error.
\<close>

definition healthyConn :: conn where
  "healthyConn = \<lparr>written = [], closeCalls = 0, writeErr = None, closeErr = None\<rparr>"

definition connected :: "bytes \<Rightarrow> client" where
  "connected message = snd (Redial (Inr healthyConn) message newClient)"

text \<open>That client after a call of \<^verbatim>\<open>Close\<close>.\<close>

definition closedClient :: client where
  "closedClient = (case Close (connected []) of Done (r, c) \<Rightarrow> c | _ \<Rightarrow> newClient)"

subsection \<open>watchdog\<close>

text \<open>
  \<^verbatim>\<open>time.Duration\<close> is a 64-bit count of nanoseconds and \<^verbatim>\<open>int\<close> has 64 bits:
  \<open>int64\<close> is the wrap-around of their arithmetic. An instant is a count of
  nanoseconds on the monotonic clock.
\<close>

definition int64 :: "int \<Rightarrow> int" where
  "int64 x = (x + 2 ^ 63) mod 2 ^ 64 - 2 ^ 63"

definition Second :: int where "Second = 1000000000"

definition pingDuration :: "int \<Rightarrow> int" where
  "pingDuration interval = int64 (interval * Second)"

definition timeoutDuration :: "int \<Rightarrow> int" where
  "timeoutDuration interval = int64 (int64 (interval + 1) * Second)"

record deadlines =
  nextPing :: int
  nextTimeout :: int

text \<open>
  The two deadlines before the loop; \<open>now1\<close> and \<open>now2\<close> are the two readings of
  \<^verbatim>\<open>time.Now()\<close>.
\<close>

definition watchdog_init :: "int \<Rightarrow> int \<Rightarrow> int \<Rightarrow> deadlines" where
  "watchdog_init interval now1 now2 =
     \<lparr>nextPing = now1 + pingDuration interval,
      nextTimeout = now2 + int64 (timeoutDuration interval + pingDuration interval)\<rparr>"

datatype wevent = PingTimer | TimeoutTimer | PongReceived | CloseChanFired | ShutdownFired

text \<open>
  The body of the loop of \<^verbatim>\<open>watchdog\<close> for the case taken; \<open>now\<close> is the reading of
  \<^verbatim>\<open>time.Now()\<close> in that case.
\<close>

definition watchdog_body ::
  "int \<Rightarrow> int \<Rightarrow> wevent \<Rightarrow> deadlines \<times> client \<Rightarrow> (deadlines \<times> client) outcome" where
  "watchdog_body interval now ev dc =
     (let (d, c) = dc
      in case ev of
           PingTimer \<Rightarrow>
             (case WsClient c of
                None \<Rightarrow> Panic NilPointerDereference
              | Some ws \<Rightarrow>
                  (case WriteMessage ws PingMessage [] of
                     (Some err, ws') \<Rightarrow>
                       (case doShutdown (Some err) (c\<lparr>WsClient := Some ws'\<rparr>) of
                          Done c' \<Rightarrow> Exit (d, c')
                        | Exit c' \<Rightarrow> Exit (d, c')
                        | Blocked b c' \<Rightarrow> Blocked b (d, c')
                        | Panic p \<Rightarrow> Panic p
                        | Spins \<Rightarrow> Spins)
                   | (None, ws') \<Rightarrow>
                       Done (d\<lparr>nextPing := now + pingDuration interval\<rparr>,
                             c\<lparr>WsClient := Some ws'\<rparr>)))
         | TimeoutTimer \<Rightarrow>
             (case doShutdown (Some (Errorf ''server is not responding, closing'')) c of
                Done c' \<Rightarrow> Exit (d, c')
              | Exit c' \<Rightarrow> Exit (d, c')
              | Blocked b c' \<Rightarrow> Blocked b (d, c')
              | Panic p \<Rightarrow> Panic p
              | Spins \<Rightarrow> Spins)
         | PongReceived \<Rightarrow> Done (d\<lparr>nextTimeout := now + timeoutDuration interval\<rparr>, c)
         | CloseChanFired \<Rightarrow> Done (d, c)
         | ShutdownFired \<Rightarrow> Exit (d, c))"

text \<open>
  The loop against a peer that never answers a ping, on a clock where a timer fires at
  its deadline (at once when the deadline is past) and the statements take no time:
  no pong arrives and nothing else shuts the client down, so each \<^verbatim>\<open>select\<close> takes the
  timer that fires first. When both fire at the same instant Go takes either;
  \<open>pingFirst\<close> says which. \<open>t\<close> is the instant at which the iteration starts. The
  result lists the cases taken, each with its instant, and how the loop ended; with the
  fuel used up the loop is still running (\<open>Done\<close>).
\<close>

fun watchdog_silent ::
  "nat \<Rightarrow> bool \<Rightarrow> int \<Rightarrow> int \<Rightarrow> deadlines \<times> client \<Rightarrow>
     (int \<times> wevent) list \<times> (deadlines \<times> client) outcome" where
  "watchdog_silent 0 pingFirst interval t dc = ([], Done dc)"
| "watchdog_silent (Suc fuel) pingFirst interval t dc =
     (if \<not> closed (snd dc) \<and> \<not> isShutdown (snd dc) then
        (let tp = max t (nextPing (fst dc));
             tt = max t (nextTimeout (fst dc))
         in if tp < tt \<or> (tp = tt \<and> pingFirst) then
              (case watchdog_body interval tp PingTimer dc of
                 Done dc' \<Rightarrow>
                   (let (tr, r) = watchdog_silent fuel pingFirst interval tp dc'
                    in ((tp, PingTimer) # tr, r))
               | r \<Rightarrow> ([(tp, PingTimer)], r))
            else
              (case watchdog_body interval tt TimeoutTimer dc of
                 Done dc' \<Rightarrow>
                   (let (tr, r) = watchdog_silent fuel pingFirst interval tt dc'
                    in ((tt, TimeoutTimer) # tr, r))
               | r \<Rightarrow> ([(tt, TimeoutTimer)], r)))
      else ([], Exit dc))"

text \<open>
  \<^verbatim>\<open>watchdog(interval)\<close> started at the instant \<open>start\<close> on that clock.
\<close>

definition watchdog :: "nat \<Rightarrow> bool \<Rightarrow> int \<Rightarrow> int \<Rightarrow> client \<Rightarrow>
     (int \<times> wevent) list \<times> (deadlines \<times> client) outcome" where
  "watchdog fuel pingFirst interval start c =
     watchdog_silent fuel pingFirst interval start (watchdog_init interval start start, c)"

section \<open>Properties of the multiplexer\<close>

lemma bytes_Index_absent: "c \<notin> set xs \<Longrightarrow> bytes_Index xs c = - 1"
  by (induction xs) (auto simp: Let_def)

lemma bytes_Index_nonneg: "c \<in> set xs \<Longrightarrow> 0 \<le> bytes_Index xs c"
  by (induction xs) (auto simp: Let_def)

lemma bytes_Index_first: "c \<notin> set xs \<Longrightarrow> bytes_Index (xs @ c # ys) c = int (length xs)"
  by (induction xs) (auto simp: Let_def)

lemma handleCommand_expecting:
  "handleCommand (s\<lparr>expectingCommand := b\<rparr>) c = handleCommand s c"
  by (simp add: handleCommand_def)

lemma handleChunk_trailing_trigger:
  assumes "EscapeChar \<notin> set prefix" and "\<not> expectingCommand s"
  shows "handleChunk s (prefix @ [EscapeChar]) =
           Inr (s\<lparr>expectingCommand := True\<rparr>,
                if prefix = [] then [] else [OutChanSend prefix])"
  using assms
  by (simp add: handleChunk_def pendingCommand_def newEscape_def bytes_Index_first)

lemma handleChunk_pending:
  assumes "EscapeChar \<notin> set suffix" and "CMD \<noteq> EscapeChar" and "expectingCommand s"
  shows "handleChunk s (CMD # suffix) =
           Inr (s\<lparr>expectingCommand := False\<rparr>,
                snd (handleCommand s CMD) @ [OutChanSend (fst (handleCommand s CMD) @ suffix)])"
proof -
  have idx: "bytes_Index (CMD # suffix) EscapeChar = - 1"
    using assms by (simp add: bytes_Index_absent)
  obtain r e where hc: "handleCommand s CMD = (r, e)"
    by (cases "handleCommand s CMD")
  show ?thesis
    using assms(3)
    by (simp add: handleChunk_def pendingCommand_def newEscape_def idx hc
        handleCommand_expecting del: bytes_Index.simps)
qed

text \<open>
  C8. A non-empty chunk without the trigger byte, read in Normal state, is forwarded as
  it is: the only event of the iteration is the send of that chunk on \<^verbatim>\<open>outChan\<close>,
  \<^verbatim>\<open>handleCommand\<close> is not called, and the handler state is the one before.
\<close>

theorem passthrough_without_trigger:
  assumes "chunk \<noteq> []" and "EscapeChar \<notin> set chunk" and "\<not> expectingCommand s"
  shows "handleChunk s chunk = Inr (s, [OutChanSend chunk])"
  using assms
  by (simp add: handleChunk_def pendingCommand_def newEscape_def bytes_Index_absent)

theorem passthrough_without_trigger_witness:
  "handleChunk (NewStdFdsHandler ImplementationWiSe) [0x68, 0x69] =
     Inr (NewStdFdsHandler ImplementationWiSe, [OutChanSend [0x68, 0x69]])"
  using passthrough_without_trigger
    [of "[0x68, 0x69]" "NewStdFdsHandler ImplementationWiSe"]
  by (simp add: NewStdFdsHandler_def EscapeChar_def)

text \<open>
  C2. The chunk \<open>"hi" + TRIGGER + 'q'\<close> read in Normal state. The branch for a trigger
  before the last position takes \<^verbatim>\<open>input[escapePos]\<close> as the command, which is the
  trigger byte itself and not the byte after it: \<^verbatim>\<open>handleCommand\<close> is called with
  the trigger byte, no case of its switch matches, nothing is sent on \<^verbatim>\<open>errChan\<close>,
  and \<open>"hi"\<close> is forwarded.
\<close>

theorem hi_trigger_q_single_chunk:
  "handleStdin (NewStdFdsHandler impl) [[0x68, 0x69, EscapeChar, QuitChar]] =
     Inr (NewStdFdsHandler impl, [HandleCommand EscapeChar, OutChanSend [0x68, 0x69]])"
  by (simp add: handleChunk_def pendingCommand_def newEscape_def handleCommand_def
      NewStdFdsHandler_def EscapeChar_def QuitChar_def ConfigChar_def DetectBaudChar_def
      ClearChar_def CtrlTChar_def HelpChar_def)

text \<open>
  C3, as stated, fails twice. Read in two chunks, \<open>"hi" + TRIGGER\<close> then \<open>'q'\<close> raises
  the quit error; read in one chunk it does not. And with a command pending, the chunk
  \<open>'t'\<close> is forwarded as the trigger byte, in Normal state, where a scan of the spliced
  chunk would find that trigger byte in last position and wait for a command.
\<close>

theorem split_trigger_counterexample:
  "\<not> splitEquivalent (NewStdFdsHandler ImplementationWiSe) [0x68, 0x69] QuitChar [] \<and>
   handleChunk \<lparr>implementation = ImplementationWiSe, expectingCommand = True\<rparr> [CtrlTChar] =
     Inr (NewStdFdsHandler ImplementationWiSe,
          [HandleCommand CtrlTChar, OutChanSend [EscapeChar]]) \<and>
   spec_scanAfterSplice \<lparr>implementation = ImplementationWiSe, expectingCommand = True\<rparr> [CtrlTChar] =
     Inr (\<lparr>implementation = ImplementationWiSe, expectingCommand = True\<rparr>,
          [HandleCommand CtrlTChar])"
  by (simp add: splitEquivalent_def spec_scanAfterSplice_def handleChunk_def
      pendingCommand_def newEscape_def
      handleCommand_def NewStdFdsHandler_def EscapeChar_def QuitChar_def ConfigChar_def
      DetectBaudChar_def ClearChar_def CtrlTChar_def HelpChar_def)

text \<open>
  C3, amended. From Normal state, with no trigger byte in \<open>prefix\<close> or \<open>suffix\<close> and
  \<open>CMD\<close> not the trigger byte, the two chunks \<open>[prefix..., TRIGGER]\<close> and
  \<open>[CMD, suffix...]\<close> forward \<open>prefix\<close> (nothing when it is empty), call the handler
  once, with \<open>CMD\<close>, and then forward the handler's replacement followed by
  \<open>suffix\<close>, ending in Normal state. The scan for the trigger is made on the chunk as
  read, before the replacement is spliced in: the trigger byte that the command
  \<open>'t'\<close> puts back is forwarded as data and starts no new command.
\<close>

theorem split_trigger_two_chunks:
  assumes "EscapeChar \<notin> set prefix" and "EscapeChar \<notin> set suffix"
    and "CMD \<noteq> EscapeChar" and "\<not> expectingCommand s"
  shows "handleStdin s [prefix @ [EscapeChar], CMD # suffix] =
           Inr (s, (if prefix = [] then [] else [OutChanSend prefix]) @
                   snd (handleCommand s CMD) @
                   [OutChanSend (fst (handleCommand s CMD) @ suffix)]) \<and>
         commandsHandled (snd (handleCommand s CMD)) = [CMD] \<and>
         handleStdin s [prefix @ [EscapeChar], CtrlTChar # suffix] =
           Inr (s, (if prefix = [] then [] else [OutChanSend prefix]) @
                   [HandleCommand CtrlTChar, OutChanSend (EscapeChar # suffix)])"
proof -
  let ?s1 = "s\<lparr>expectingCommand := True\<rparr>"
  have restore: "?s1\<lparr>expectingCommand := False\<rparr> = s"
    using assms(4) by simp
  have first: "handleChunk s (prefix @ [EscapeChar]) =
      Inr (?s1, if prefix = [] then [] else [OutChanSend prefix])"
    using assms(1,4) by (rule handleChunk_trailing_trigger)
  have second: "handleChunk ?s1 (c # suffix) =
      Inr (s, snd (handleCommand s c) @ [OutChanSend (fst (handleCommand s c) @ suffix)])"
    if "c \<noteq> EscapeChar" for c
    using handleChunk_pending [OF assms(2) that, of ?s1]
    by (simp add: restore handleCommand_expecting)
  have two: "handleStdin s [prefix @ [EscapeChar], CMD # suffix] =
           Inr (s, (if prefix = [] then [] else [OutChanSend prefix]) @
                   snd (handleCommand s CMD) @
                   [OutChanSend (fst (handleCommand s CMD) @ suffix)])"
    by (simp add: first second [OF assms(3)])
  have once: "commandsHandled (snd (handleCommand s CMD)) = [CMD]"
    by (simp add: handleCommand_def)
  have t: "CtrlTChar \<noteq> EscapeChar"
    by (simp add: CtrlTChar_def EscapeChar_def)
  have ht: "handleCommand s CtrlTChar = ([EscapeChar], [HandleCommand CtrlTChar])"
    by (simp add: handleCommand_def QuitChar_def ConfigChar_def DetectBaudChar_def
        ClearChar_def CtrlTChar_def)
  have putback: "handleStdin s [prefix @ [EscapeChar], CtrlTChar # suffix] =
           Inr (s, (if prefix = [] then [] else [OutChanSend prefix]) @
                   [HandleCommand CtrlTChar, OutChanSend (EscapeChar # suffix)])"
    by (simp add: first second [OF t] ht)
  from two once putback show ?thesis by blast
qed

theorem split_trigger_two_chunks_witness:
  "handleStdin (NewStdFdsHandler ImplementationWiSe) [[0x68, 0x69, EscapeChar], [QuitChar, 0x0A]] =
     Inr (NewStdFdsHandler ImplementationWiSe,
          [OutChanSend [0x68, 0x69], HandleCommand QuitChar, Println,
           ErrChanSend ''quitting'', OutChanSend [0x0A]]) \<and>
   handleStdin (NewStdFdsHandler ImplementationWiSe) [[0x68, 0x69, EscapeChar], [CtrlTChar, 0x0A]] =
     Inr (NewStdFdsHandler ImplementationWiSe,
          [OutChanSend [0x68, 0x69], HandleCommand CtrlTChar, OutChanSend [EscapeChar, 0x0A]])"
  using split_trigger_two_chunks
    [of "[0x68, 0x69]" "[0x0A]" QuitChar "NewStdFdsHandler ImplementationWiSe"]
  by (simp add: handleCommand_def NewStdFdsHandler_def EscapeChar_def QuitChar_def)

text \<open>
  C10. The chunk \<open>[TRIGGER]\<close> followed by the chunk \<open>[TRIGGER]\<close>. The second chunk is
  the pending command: its replacement is empty, the chunk becomes empty, and
  \<open>escapePos\<close>, which was 0, is moved to 1 (\<^verbatim>\<open>escapePos += 1 - len(replacement)\<close>)
  where the splice moved every byte one place down. The branch for a trigger before the
  last position then reads \<^verbatim>\<open>input[:1]\<close> and \<^verbatim>\<open>input[1]\<close> of the empty chunk:
  the run panics.
\<close>

theorem trigger_then_trigger_panics:
  "handleStdin (NewStdFdsHandler impl) [[EscapeChar], [EscapeChar]] = Inl OutOfRange"
  by (simp add: handleChunk_def pendingCommand_def newEscape_def handleCommand_def
      NewStdFdsHandler_def EscapeChar_def QuitChar_def ConfigChar_def DetectBaudChar_def
      ClearChar_def CtrlTChar_def HelpChar_def)

section \<open>Properties of the engine\<close>

lemma drain_open: "\<not> chClosed ch \<Longrightarrow> drain ch = Some (ch\<lparr>queue := []\<rparr>)"
proof (induction "queue ch" arbitrary: ch)
  case Nil
  then show ?case
    by (subst drain.simps) (simp add: chanpoll_def)
next
  case (Cons x xs)
  from Cons(2) have q: "queue ch = x # xs" by simp
  have "drain ch = drain (ch\<lparr>queue := xs\<rparr>)"
    by (subst drain.simps) (simp add: chanpoll_def q)
  also have "\<dots> = Some (ch\<lparr>queue := xs\<rparr>\<lparr>queue := []\<rparr>)"
    using Cons(1) [of "ch\<lparr>queue := xs\<rparr>"] Cons(3) by simp
  finally show ?case by simp
qed

lemma drain_empty: "\<not> chClosed ch \<Longrightarrow> queue ch = [] \<Longrightarrow> drain ch = Some ch"
  by (simp add: drain_open)

lemma connected_eq:
  "connected message =
     newClient\<lparr>WsClient := Some (healthyConn\<lparr>written := [(BinaryMessage, message)]\<rparr>),
               shutdown := Some (makechan 0), isShutdown := False, dials := 1\<rparr>"
  by (simp add: connected_def Redial_def newClient_def WriteMessage_def healthyConn_def)

lemmas tags = MsgInput_def MsgOutput_def MsgServerPause_def MsgServerResume_def
  MsgSetWindowTitle_def MsgDetectBaudrate_def

text \<open>
  C1. A client just connected receives the server's pause frame and then a chunk of user
  input. The pause engages the gate (\<open>flowControlEngaged\<close>, mutex locked). The case of
  \<^verbatim>\<open>input\<close> calls \<^verbatim>\<open>WriteMessage\<close> without locking the mutex: the input frame is
  written to the connection while the gate is engaged. The case of \<^verbatim>\<open>toWs\<close> does lock
  it, and waits (\<open>control_frame_waits_for_gate\<close>).
\<close>

theorem input_written_while_gate_engaged:
  "chanLoop (connected message) [FromWs [MsgServerPause], Input [0x61]] =
     (Done ((connected message)
        \<lparr>WsClient := Some (healthyConn
            \<lparr>written := [(BinaryMessage, message), (BinaryMessage, [MsgInput, 0x61])]\<rparr>),
         flowControl := True, flowControlEngaged := True\<rparr>), [])"
  by (simp add: connected_eq newClient_def chanLoop_body_def dispatch_def writeFrame_def
      WriteMessage_def healthyConn_def tags)

lemma control_frame_waits_for_gate:
  "flowControl c \<Longrightarrow> data \<noteq> [] \<Longrightarrow> chanLoop_body (ToWs data) c = Blocked (LockForWrite data) c"
  by (simp add: chanLoop_body_def)

text \<open>
  C4. A client just connected, with no consumer on the title port, receives two
  window-title frames. \<^verbatim>\<open>winTitle\<close> is made without a buffer, so the loop that
  empties it finds nothing to drop and the send of the first title blocks: the engine is
  parked offering the first title, and the second frame has not been taken from
  \<^verbatim>\<open>fromWs\<close>. The next receive on the title port gets the first title.
\<close>

theorem second_title_waits_behind_first:
  "chanLoop (connected message)
     [FromWs (MsgSetWindowTitle # first), FromWs (MsgSetWindowTitle # second)] =
     (Blocked (SendWinTitle first) (connected message), [FromWs (MsgSetWindowTitle # second)])"
  by (simp add: connected_eq newClient_def chanLoop_body_def dispatch_def drain_empty
      chansend_def makechan_def tags)

text \<open>
  With a buffer of one title the same two frames leave only the second title in the
  channel: the loop that empties the channel is there for a buffered channel.
\<close>

lemma buffered_title_keeps_latest:
  "chanLoop ((connected message)\<lparr>winTitle := makechan 1\<rparr>)
     [FromWs (MsgSetWindowTitle # first), FromWs (MsgSetWindowTitle # second)] =
     (Done ((connected message)\<lparr>winTitle := (makechan 1)\<lparr>queue := [second]\<rparr>\<rparr>), [])"
  by (simp add: connected_eq newClient_def chanLoop_body_def dispatch_def drain_open
      chansend_def makechan_def tags)

lemma doShutdown_when_shut: "isShutdown c \<Longrightarrow> doShutdown err c = Done c"
  by (simp add: doShutdown_def)

lemma doShutdown_nil_Done:
  "doShutdown None c = Done c1 \<Longrightarrow> isShutdown c1 \<and> closed c1 = closed c"
  by (auto simp: doShutdown_def closechan_def Let_def split: if_splits option.splits sum.splits)

lemma closePorts_flags:
  "closePorts c = Inr c2 \<Longrightarrow> isShutdown c2 = isShutdown c \<and> closed c2 = closed c"
  by (auto simp: closePorts_def split: sum.splits)

lemma SoftClose_flags:
  "SoftClose c = Done (r, c2) \<Longrightarrow> isShutdown c2 = isShutdown c \<and> closed c2 = closed c"
  by (auto simp: SoftClose_def split: if_splits option.splits)

lemma Close_Done_flags:
  assumes "Close c = Done (r, c1)"
  shows "isShutdown c1 \<and> closed c1"
proof -
  from assms obtain c0 where d: "doShutdown None c = Done c0"
    by (auto simp: Close_def split: outcome.splits)
  then have s0: "isShutdown c0" by (simp add: doShutdown_nil_Done)
  show ?thesis
  proof (cases "closed c0")
    case True
    with assms d s0 show ?thesis by (simp add: Close_def)
  next
    case False
    with assms d obtain c2 where p: "closePorts (c0\<lparr>closed := True\<rparr>) = Inr c2"
      and sc: "SoftClose c2 = Done (r, c1)"
      by (auto simp: Close_def split: sum.splits)
    from p s0 have "isShutdown c2 \<and> closed c2" by (simp add: closePorts_flags)
    with sc show ?thesis by (simp add: SoftClose_flags)
  qed
qed

lemma Close_when_closed: "isShutdown c \<Longrightarrow> closed c \<Longrightarrow> Close c = Done (None, c)"
  by (simp add: Close_def doShutdown_when_shut)

text \<open>
  C6. After a call of \<^verbatim>\<open>Close\<close> that returned, a further call returns nil and leaves
  the client as it is: no channel and no connection is closed again. \<^verbatim>\<open>Redial\<close> on a
  closed client returns an error without dialling (\<open>dials\<close> and the connection are as
  before), and \<^verbatim>\<open>SoftClose\<close> on a client that is not shut down returns an error and
  changes nothing.
\<close>

theorem hard_close_idempotent:
  "(Close c = Done (r, c1) \<longrightarrow> Close c1 = Done (None, c1)) \<and>
   (closed c \<longrightarrow>
      Redial dial message c = (Some (Errorf ''not allowed to redial on closed client''), c)) \<and>
   (\<not> isShutdown c \<longrightarrow>
      SoftClose c = Done (Some (Errorf
        ''can only soft-close in order to redial if the client is already shut down''), c))"
  using Close_Done_flags [of c r c1]
  by (auto simp: Close_when_closed Redial_def SoftClose_def)

lemma Close_connected: "Close (connected []) = Done (None, closedClient)"
  by (simp add: closedClient_def connected_eq newClient_def Close_def doShutdown_def
      closePorts_def closechan_def SoftClose_def makechan_def healthyConn_def)

theorem hard_close_idempotent_witness:
  "Close (connected []) = Done (None, closedClient) \<and>
   Close closedClient = Done (None, closedClient) \<and>
   closed closedClient \<and>
   Redial (Inr healthyConn) [] closedClient =
     (Some (Errorf ''not allowed to redial on closed client''), closedClient) \<and>
   \<not> isShutdown (connected []) \<and>
   SoftClose (connected []) = Done (Some (Errorf
     ''can only soft-close in order to redial if the client is already shut down''),
     connected [])"
proof -
  have a: "Close (connected []) = Done (None, closedClient)" by (rule Close_connected)
  have b: "closed closedClient" using Close_Done_flags [OF a] by simp
  have c: "\<not> isShutdown (connected [])" by (simp add: connected_eq)
  from a b c
    hard_close_idempotent [of "connected []" None closedClient]
    hard_close_idempotent [of closedClient None closedClient "Inr healthyConn" "[]"]
  show ?thesis by simp
qed

text \<open>
  C5. In an epoch (the shutdown channel is open, the mutex is locked whenever the gate
  is engaged, the error channel is open and unbuffered), the first call of
  \<^verbatim>\<open>doShutdown\<close> marks the client shut down and disengages the gate. With a nil error
  it sends nothing. With an error it sends that error on the error channel: a waiting
  receiver gets it, and with no receiver the call is parked in that send. In the state
  it leaves, every further call returns at once and changes nothing, so the error
  channel gets no second error. The calls are taken one after the other.
\<close>

theorem soft_shutdown_once_per_epoch:
  assumes "\<not> isShutdown c" and "shutdown c = Some sh" and "\<not> chClosed sh"
    and "flowControlEngaged c \<longrightarrow> flowControl c"
    and "\<not> chClosed (error c)" and "qsize (error c) = 0"
  shows "\<exists>c'. (case err of
                 None \<Rightarrow> doShutdown err c = Done c' \<and> error c' = error c
               | Some e \<Rightarrow>
                   if 0 < recvq (error c)
                   then doShutdown err c = Done c' \<and>
                        taken (error c') = taken (error c) @ [e]
                   else doShutdown err c = Blocked (SendError e) c' \<and>
                        error c' = error c) \<and>
              isShutdown c' \<and> \<not> flowControlEngaged c' \<and>
              (flowControlEngaged c \<longrightarrow> \<not> flowControl c') \<and>
              (\<forall>err2. doShutdown err2 c' = Done c')"
proof -
  let ?c1 = "c\<lparr>shutdown := Some (sh\<lparr>chClosed := True, recvq := 0\<rparr>), isShutdown := True\<rparr>"
  let ?c2 = "if flowControlEngaged c
             then ?c1\<lparr>flowControlEngaged := False, flowControl := False\<rparr> else ?c1"
  have flags: "isShutdown ?c2" "\<not> flowControlEngaged ?c2"
    "flowControlEngaged c \<longrightarrow> \<not> flowControl ?c2" "error ?c2 = error c"
    by simp_all
  consider (nil) "err = None"
    | (handed) e where "err = Some e" and "0 < recvq (error c)"
    | (parked) e where "err = Some e" and "recvq (error c) = 0"
    by (cases err) auto
  then show ?thesis
  proof cases
    case nil
    have "doShutdown err c = Done ?c2"
      using assms nil by (simp add: doShutdown_def closechan_def)
    with nil flags show ?thesis
      by (intro exI [of _ ?c2]) (simp add: doShutdown_when_shut)
  next
    case handed
    let ?c3 = "?c2\<lparr>error := (error c)\<lparr>recvq := recvq (error c) - 1,
                                           taken := taken (error c) @ [e]\<rparr>\<rparr>"
    have "doShutdown err c = Done ?c3"
      using assms handed by (simp add: doShutdown_def closechan_def chansend_def)
    with handed show ?thesis
      by (intro exI [of _ ?c3]) (simp add: doShutdown_when_shut)
  next
    case parked
    have "doShutdown err c = Blocked (SendError e) ?c2"
      using assms parked by (simp add: doShutdown_def closechan_def chansend_def)
    with parked flags show ?thesis
      by (intro exI [of _ ?c2]) (simp add: doShutdown_when_shut)
  qed
qed

theorem soft_shutdown_once_per_epoch_witness:
  "doShutdown (Some (TransportError 0))
     ((connected [])\<lparr>flowControl := True, flowControlEngaged := True,
                      error := chanrecv (error (connected []))\<rparr>) =
   Done ((connected [])\<lparr>shutdown := Some ((makechan 0)\<lparr>chClosed := True\<rparr>),
                        isShutdown := True,
                        error := (makechan 0)\<lparr>taken := [TransportError 0]\<rparr>\<rparr>) \<and>
   doShutdown (Some (TransportError 1))
     ((connected [])\<lparr>shutdown := Some ((makechan 0)\<lparr>chClosed := True\<rparr>),
                      isShutdown := True,
                      error := (makechan 0)\<lparr>taken := [TransportError 0]\<rparr>\<rparr>) =
   Done ((connected [])\<lparr>shutdown := Some ((makechan 0)\<lparr>chClosed := True\<rparr>),
                        isShutdown := True,
                        error := (makechan 0)\<lparr>taken := [TransportError 0]\<rparr>\<rparr>)"
  using soft_shutdown_once_per_epoch
    [of "(connected [])\<lparr>flowControl := True, flowControlEngaged := True,
                         error := chanrecv (error (connected []))\<rparr>"
        "makechan 0" "Some (TransportError 0)"]
  by (auto simp: connected_eq newClient_def makechan_def chanrecv_def doShutdown_def
      closechan_def chansend_def)

lemma foldl_digits_mono:
  "m \<le> foldl (\<lambda>n c. n * 10 + unat (c - (0x30 :: byte))) m cs"
proof (induction cs arbitrary: m)
  case Nil
  show ?case by simp
next
  case (Cons c cs)
  have "m \<le> m * 10 + unat (c - 0x30)" by simp
  also have "\<dots> \<le> foldl (\<lambda>n c. n * 10 + unat (c - (0x30 :: byte))) (m * 10 + unat (c - 0x30)) cs"
    by (rule Cons.IH)
  finally show ?case by simp
qed

lemma parseUintLoop_digits:
  assumes "\<forall>c\<in>set cs. isDigit c"
    and "foldl (\<lambda>n c. n * 10 + unat (c - (0x30 :: byte))) m cs < 9223372036854775808"
  shows "parseUintLoop cs m = Inr (foldl (\<lambda>n c. n * 10 + unat (c - (0x30 :: byte))) m cs)"
  using assms
proof (induction cs arbitrary: m)
  case Nil
  show ?case by simp
next
  case (Cons c cs)
  let ?m1 = "m * 10 + unat (c - 0x30)"
  have "?m1 \<le> foldl (\<lambda>n c. n * 10 + unat (c - (0x30 :: byte))) ?m1 cs"
    by (rule foldl_digits_mono)
  with Cons.prems(2) have small: "?m1 < 9223372036854775808" by simp
  then have "m < 1844674407370955162" and "\<not> ?m1 > 18446744073709551615"
    by simp_all
  moreover have "isDigit c" using Cons.prems(1) by simp
  moreover have "parseUintLoop cs ?m1 =
      Inr (foldl (\<lambda>n c. n * 10 + unat (c - (0x30 :: byte))) ?m1 cs)"
    using Cons.prems by (intro Cons.IH) simp_all
  ultimately show ?case
    by (simp add: Let_def)
qed

lemma ParseInt_decimal:
  assumes "s \<noteq> []" and "\<forall>c\<in>set s. isDigit c" and "decimalValue s < 9223372036854775808"
  shows "ParseInt s = Inr (int (decimalValue s))"
proof -
  from assms(1) obtain c cs where s: "s = c # cs" by (cases s) auto
  with assms(2) have "isDigit c" by simp
  then have nosign: "c \<noteq> 0x2B" "c \<noteq> 0x2D"
    by (auto simp: isDigit_def)
  have "ParseUint s = Inr (decimalValue s)"
    using assms unfolding ParseUint_def decimalValue_def
    by (simp add: parseUintLoop_digits del: parseUintLoop.simps)
  with assms(3) nosign show ?thesis
    by (simp add: ParseInt_def s [symmetric] Let_def split: list.splits)
       (simp add: s nosign)
qed

lemma parseUintLoop_nondigit:
  "\<exists>c\<in>set s. \<not> isDigit c \<Longrightarrow> \<exists>err. parseUintLoop s n = Inl err"
  by (induction s arbitrary: n) (auto simp: Let_def)

lemma ParseUint_nondigit:
  "\<exists>c\<in>set s. \<not> isDigit c \<Longrightarrow> \<exists>err. ParseUint s = Inl err"
  by (simp add: ParseUint_def parseUintLoop_nondigit)

lemma ParseInt_separator:
  assumes "0x20 \<in> set s \<or> 0x2C \<in> set s"
  shows "\<exists>err. ParseInt s = Inl err"
proof -
  obtain b where b: "b \<in> set s" "b = 0x20 \<or> b = 0x2C"
    using assms by blast
  then have nd: "\<not> isDigit b" and ns: "b \<noteq> 0x2B" "b \<noteq> 0x2D"
    by (auto simp: isDigit_def)
  from b obtain c cs where s: "s = c # cs" by (cases s) auto
  let ?digits = "if c = 0x2B \<or> c = 0x2D then cs else s"
  have "b \<in> set ?digits"
    using b(1) ns s by auto
  with nd have "\<exists>err. ParseUint ?digits = Inl err"
    by (intro ParseUint_nondigit) blast
  then obtain err where "ParseUint ?digits = Inl err" ..
  then show ?thesis
    by (auto simp: ParseInt_def s Let_def split: if_splits)
qed

text \<open>
  C9. A detected-baudrate frame, with the baud channel open and empty as
  \<^verbatim>\<open>DialAndAuth\<close> makes it. When \<^verbatim>\<open>ParseInt\<close> accepts the payload the value is sent
  on the baud channel (handed to a waiting receiver; with none, the engine is parked in
  the send). When it does not, a warning is printed and the client is otherwise
  unchanged: it is not shut down and the loop goes on. A payload with a space or a comma
  in it, as the two-value form has, is never accepted; a string of decimal digits below
  \<open>2^63\<close> is accepted, with the number it denotes.
\<close>

theorem baud_frame_parsed_or_ignored:
  assumes "\<not> chClosed (detectedBaudrate c)" and "queue (detectedBaudrate c) = []"
    and "qsize (detectedBaudrate c) = 0"
  shows "chanLoop_body (FromWs (MsgDetectBaudrate # payload)) c =
           (case ParseInt payload of
              Inr i \<Rightarrow>
                if 0 < recvq (detectedBaudrate c)
                then Done (c\<lparr>detectedBaudrate := (detectedBaudrate c)
                              \<lparr>recvq := recvq (detectedBaudrate c) - 1,
                               taken := taken (detectedBaudrate c) @ [i]\<rparr>\<rparr>)
                else Blocked (SendBaud i) c
            | Inl err \<Rightarrow>
                Done (c\<lparr>printed := printed c @ [''unable to parse detected baudrate'']\<rparr>)) \<and>
         ((0x20 \<in> set payload \<or> 0x2C \<in> set payload) \<longrightarrow>
            (\<exists>err. ParseInt payload = Inl err)) \<and>
         (payload \<noteq> [] \<and> (\<forall>b\<in>set payload. isDigit b) \<and>
          decimalValue payload < 9223372036854775808 \<longrightarrow>
            ParseInt payload = Inr (int (decimalValue payload)))"
proof -
  have d: "drain (detectedBaudrate c) = Some (detectedBaudrate c)"
    using assms(1,2) by (rule drain_empty)
  have "chanLoop_body (FromWs (MsgDetectBaudrate # payload)) c =
          dispatch MsgDetectBaudrate payload c"
    by (simp add: chanLoop_body_def)
  also have "\<dots> =
           (case ParseInt payload of
              Inr i \<Rightarrow>
                if 0 < recvq (detectedBaudrate c)
                then Done (c\<lparr>detectedBaudrate := (detectedBaudrate c)
                              \<lparr>recvq := recvq (detectedBaudrate c) - 1,
                               taken := taken (detectedBaudrate c) @ [i]\<rparr>\<rparr>)
                else Blocked (SendBaud i) c
            | Inl err \<Rightarrow>
                Done (c\<lparr>printed := printed c @ [''unable to parse detected baudrate'']\<rparr>))"
    using assms
    by (simp add: dispatch_def d chansend_def tags split: sum.splits)
  finally have body: "chanLoop_body (FromWs (MsgDetectBaudrate # payload)) c =
           (case ParseInt payload of
              Inr i \<Rightarrow>
                if 0 < recvq (detectedBaudrate c)
                then Done (c\<lparr>detectedBaudrate := (detectedBaudrate c)
                              \<lparr>recvq := recvq (detectedBaudrate c) - 1,
                               taken := taken (detectedBaudrate c) @ [i]\<rparr>\<rparr>)
                else Blocked (SendBaud i) c
            | Inl err \<Rightarrow>
                Done (c\<lparr>printed := printed c @ [''unable to parse detected baudrate'']\<rparr>))" .
  show ?thesis
  proof (intro conjI impI)
    show "chanLoop_body (FromWs (MsgDetectBaudrate # payload)) c =
           (case ParseInt payload of
              Inr i \<Rightarrow>
                if 0 < recvq (detectedBaudrate c)
                then Done (c\<lparr>detectedBaudrate := (detectedBaudrate c)
                              \<lparr>recvq := recvq (detectedBaudrate c) - 1,
                               taken := taken (detectedBaudrate c) @ [i]\<rparr>\<rparr>)
                else Blocked (SendBaud i) c
            | Inl err \<Rightarrow>
                Done (c\<lparr>printed := printed c @ [''unable to parse detected baudrate'']\<rparr>))"
      by (rule body)
    show "\<exists>err. ParseInt payload = Inl err" if "0x20 \<in> set payload \<or> 0x2C \<in> set payload"
      using that by (rule ParseInt_separator)
    show "ParseInt payload = Inr (int (decimalValue payload))"
      if "payload \<noteq> [] \<and> (\<forall>b\<in>set payload. isDigit b) \<and>
          decimalValue payload < 9223372036854775808"
      using that by (intro ParseInt_decimal) simp_all
  qed
qed

theorem baud_frame_parsed_or_ignored_witness:
  "chanLoop_body (FromWs [MsgDetectBaudrate, 0x39, 0x36, 0x30, 0x30])
     ((connected [])\<lparr>detectedBaudrate := chanrecv (detectedBaudrate (connected []))\<rparr>) =
     Done ((connected [])\<lparr>detectedBaudrate := (makechan 0)\<lparr>taken := [9600]\<rparr>\<rparr>) \<and>
   chanLoop_body (FromWs [MsgDetectBaudrate, 0x39, 0x36, 0x30, 0x30, 0x20, 0x39, 0x36, 0x31, 0x35])
     (connected []) =
     Done ((connected [])\<lparr>printed := [''unable to parse detected baudrate'']\<rparr>) \<and>
   chanLoop_body (FromWs [MsgDetectBaudrate, 0x39, 0x36, 0x30, 0x30, 0x2C, 0x39, 0x36, 0x31, 0x35])
     (connected []) =
     Done ((connected [])\<lparr>printed := [''unable to parse detected baudrate'']\<rparr>)"
proof -
  let ?c1 = "(connected [])\<lparr>detectedBaudrate := chanrecv (detectedBaudrate (connected []))\<rparr>"
  have p: "ParseInt [0x39, 0x36, 0x30, 0x30] = Inr 9600"
    by (simp add: ParseInt_def ParseUint_def isDigit_def)
  have e1: "ParseInt [0x39, 0x36, 0x30, 0x30, 0x20, 0x39, 0x36, 0x31, 0x35] = Inl ErrSyntax"
    by (simp add: ParseInt_def ParseUint_def isDigit_def)
  have e2: "ParseInt [0x39, 0x36, 0x30, 0x30, 0x2C, 0x39, 0x36, 0x31, 0x35] = Inl ErrSyntax"
    by (simp add: ParseInt_def ParseUint_def isDigit_def)
  have c1: "\<not> chClosed (detectedBaudrate ?c1)" "queue (detectedBaudrate ?c1) = []"
    "qsize (detectedBaudrate ?c1) = 0" "recvq (detectedBaudrate ?c1) = 1"
    "taken (detectedBaudrate ?c1) = []"
    by (simp_all add: connected_eq newClient_def makechan_def chanrecv_def)
  have c0: "\<not> chClosed (detectedBaudrate (connected []))"
    "queue (detectedBaudrate (connected [])) = []"
    "qsize (detectedBaudrate (connected [])) = 0" "printed (connected []) = []"
    by (simp_all add: connected_eq newClient_def makechan_def)
  note t1 = baud_frame_parsed_or_ignored [OF c1(1-3), THEN conjunct1]
  note t2 = baud_frame_parsed_or_ignored [OF c0(1-3), THEN conjunct1]
  have r1: "chanLoop_body (FromWs [MsgDetectBaudrate, 0x39, 0x36, 0x30, 0x30]) ?c1 =
     Done ((connected [])\<lparr>detectedBaudrate := (makechan 0)\<lparr>taken := [9600]\<rparr>\<rparr>)"
    unfolding t1 p by (simp add: c1) (simp add: connected_eq newClient_def makechan_def chanrecv_def)
  have r2: "chanLoop_body
      (FromWs [MsgDetectBaudrate, 0x39, 0x36, 0x30, 0x30, 0x20, 0x39, 0x36, 0x31, 0x35])
      (connected []) = Done ((connected [])\<lparr>printed := [''unable to parse detected baudrate'']\<rparr>)"
    unfolding t2 e1 by (simp add: c0)
  have r3: "chanLoop_body
      (FromWs [MsgDetectBaudrate, 0x39, 0x36, 0x30, 0x30, 0x2C, 0x39, 0x36, 0x31, 0x35])
      (connected []) = Done ((connected [])\<lparr>printed := [''unable to parse detected baudrate'']\<rparr>)"
    unfolding t2 e2 by (simp add: c0)
  from r1 r2 r3 show ?thesis by blast
qed

lemma int64_id: "- (2 ^ 63) \<le> x \<Longrightarrow> x < 2 ^ 63 \<Longrightarrow> int64 x = x"
  by (simp add: int64_def)

lemma pingDuration_small:
  "0 < n \<Longrightarrow> n \<le> 4611686017 \<Longrightarrow> pingDuration n = n * Second"
  by (simp add: pingDuration_def Second_def int64_id)

lemma timeoutDuration_small:
  "0 < n \<Longrightarrow> n \<le> 4611686017 \<Longrightarrow> timeoutDuration n = (n + 1) * Second"
  by (simp add: timeoutDuration_def Second_def int64_id)

lemma first_timeout_small:
  assumes "0 < n" and "n \<le> 4611686017"
  shows "int64 (timeoutDuration n + pingDuration n) = (2 * n + 1) * Second"
proof -
  have "timeoutDuration n + pingDuration n = (2 * n + 1) * Second"
    using assms by (simp add: timeoutDuration_small pingDuration_small algebra_simps)
  moreover have "int64 ((2 * n + 1) * Second) = (2 * n + 1) * Second"
    using assms by (simp add: Second_def int64_id)
  ultimately show ?thesis by simp
qed

lemma silent_ping_iter:
  assumes "\<not> closed c" and "\<not> isShutdown c" and "WsClient c = Some ws" and "writeErr ws = None"
    and "max t (nextPing d) < max t (nextTimeout d) \<or>
         (max t (nextPing d) = max t (nextTimeout d) \<and> pf)"
  shows "watchdog_silent (Suc k) pf n t (d, c) =
           (let tp = max t (nextPing d);
                (tr, r) = watchdog_silent k pf n tp
                  (d\<lparr>nextPing := tp + pingDuration n\<rparr>,
                   c\<lparr>WsClient := Some (ws\<lparr>written := written ws @ [(PingMessage, [])]\<rparr>)\<rparr>)
            in ((tp, PingTimer) # tr, r))"
proof -
  have "watchdog_body n (max t (nextPing d)) PingTimer (d, c) =
      Done (d\<lparr>nextPing := max t (nextPing d) + pingDuration n\<rparr>,
            c\<lparr>WsClient := Some (ws\<lparr>written := written ws @ [(PingMessage, [])]\<rparr>)\<rparr>)"
    using assms(3,4) by (simp add: watchdog_body_def WriteMessage_def)
  then show ?thesis
    using assms(1,2) by (simp only: watchdog_silent.simps fst_conv snd_conv Let_def assms(5))
      simp
qed

lemma silent_timeout_iter:
  assumes "\<not> closed c" and "\<not> isShutdown c"
    and "\<not> (max t (nextPing d) < max t (nextTimeout d) \<or>
            (max t (nextPing d) = max t (nextTimeout d) \<and> pf))"
    and "doShutdown (Some (Errorf ''server is not responding, closing'')) c = Done c'"
  shows "watchdog_silent (Suc k) pf n t (d, c) =
           ([(max t (nextTimeout d), TimeoutTimer)], Exit (d, c'))"
proof -
  have "watchdog_body n (max t (nextTimeout d)) TimeoutTimer (d, c) = Exit (d, c')"
    using assms(4) by (simp add: watchdog_body_def)
  then show ?thesis
    using assms(1,2) by (simp only: watchdog_silent.simps fst_conv snd_conv Let_def assms(3))
      simp
qed

text \<open>
  C7. For an interval of \<open>n\<close> seconds whose durations fit in 64 bits
  (\<open>n\<close> at most 4611686017, so that \<open>2n + 1\<close> seconds are less than \<open>2^63\<close>
  nanoseconds): the first timeout deadline is \<open>n\<close> seconds after the steady bound of
  \<open>n + 1\<close> seconds, that is \<open>2n + 1\<close> seconds after the start; a pong at the instant
  \<open>t\<close> moves the timeout deadline to \<open>n + 1\<close> seconds after \<open>t\<close>; and against a peer
  that takes the pings and never answers, on a clock where timers fire at their
  deadlines, the loop sends pings and then, \<open>2n + 1\<close> seconds after the start and not
  before the first ping, calls \<^verbatim>\<open>doShutdown\<close> once with the error
  "server is not responding, closing" and returns. The error reaches the receiver
  waiting on the error channel once.
\<close>

theorem watchdog_deadlines_and_timeout:
  assumes "0 < n" and "n \<le> 4611686017"
    and "\<not> closed c" and "\<not> isShutdown c"
    and "WsClient c = Some ws" and "writeErr ws = None"
    and "shutdown c = Some sh" and "\<not> chClosed sh"
    and "flowControlEngaged c \<longrightarrow> flowControl c"
    and "\<not> chClosed (error c)" and "0 < recvq (error c)"
  shows "nextTimeout (watchdog_init n start start) = start + (n + 1) * Second + n * Second \<and>
         nextTimeout (watchdog_init n start start) = start + (2 * n + 1) * Second \<and>
         watchdog_body n t PongReceived (d, c) =
           Done (d\<lparr>nextTimeout := t + (n + 1) * Second\<rparr>, c) \<and>
         (\<exists>pings d' c'.
            watchdog (Suc (Suc (Suc (Suc k)))) pf n start c =
              (pings @ [(start + (2 * n + 1) * Second, TimeoutTimer)], Exit (d', c')) \<and>
            (\<forall>p \<in> set pings. snd p = PingTimer) \<and>
            start + n * Second \<le> start + (2 * n + 1) * Second \<and>
            isShutdown c' \<and>
            taken (error c') =
              taken (error c) @ [Errorf ''server is not responding, closing''])"
proof -
  let ?S = Second
  let ?T = "start + (2 * n + 1) * ?S"
  let ?err = "Errorf ''server is not responding, closing''"
  have Spos: "0 < ?S" by (simp add: Second_def)
  have pd: "pingDuration n = n * ?S"
    using assms(1,2) by (rule pingDuration_small)
  have td: "timeoutDuration n = (n + 1) * ?S"
    using assms(1,2) by (rule timeoutDuration_small)
  have ft: "int64 (timeoutDuration n + pingDuration n) = (2 * n + 1) * ?S"
    using assms(1,2) by (rule first_timeout_small)
  have init: "watchdog_init n start start = \<lparr>nextPing = start + n * ?S, nextTimeout = ?T\<rparr>"
    unfolding watchdog_init_def ft by (simp add: pd)
  have A: "nextTimeout (watchdog_init n start start) = start + (n + 1) * ?S + n * ?S"
    by (simp add: init algebra_simps)
  have B: "nextTimeout (watchdog_init n start start) = ?T"
    by (simp add: init)
  have C: "watchdog_body n t PongReceived (d, c) = Done (d\<lparr>nextTimeout := t + (n + 1) * ?S\<rparr>, c)"
    by (simp add: watchdog_body_def td)
  have nS: "0 < n * ?S" using assms(1) Spos by simp
  define pinged where
    "pinged j = c\<lparr>WsClient := Some (ws\<lparr>written := written ws @ replicate j (PingMessage, [])\<rparr>)\<rparr>"
    for j :: nat
  have p0: "pinged 0 = c" by (simp add: pinged_def assms(5))
  have ping: "watchdog_silent (Suc m) pf n u (\<lparr>nextPing = a, nextTimeout = b\<rparr>, pinged j) =
           ((a, PingTimer) #
              fst (watchdog_silent m pf n a
                     (\<lparr>nextPing = a + n * ?S, nextTimeout = b\<rparr>, pinged (Suc j))),
            snd (watchdog_silent m pf n a
                   (\<lparr>nextPing = a + n * ?S, nextTimeout = b\<rparr>, pinged (Suc j))))"
    if "u \<le> a" and "a < b \<or> (a = b \<and> pf)" for m u a b j
  proof -
    let ?ws = "ws\<lparr>written := written ws @ replicate j (PingMessage, [])\<rparr>"
    let ?d = "\<lparr>nextPing = a, nextTimeout = b\<rparr>"
    have mx: "max u a = a" "max u b = b" using that by auto
    have "\<not> closed (pinged j)" "\<not> isShutdown (pinged j)" "WsClient (pinged j) = Some ?ws"
      "writeErr ?ws = None"
      using assms(3,4,6) by (simp_all add: pinged_def)
    moreover have "max u (nextPing ?d) < max u (nextTimeout ?d) \<or>
         (max u (nextPing ?d) = max u (nextTimeout ?d) \<and> pf)"
      using that(2) by (simp only: deadlines.simps mx)
    ultimately have "watchdog_silent (Suc m) pf n u (?d, pinged j) =
           (let tp = max u (nextPing ?d);
                (tr, r) = watchdog_silent m pf n tp
                  (?d\<lparr>nextPing := tp + pingDuration n\<rparr>,
                   (pinged j)\<lparr>WsClient := Some (?ws\<lparr>written := written ?ws @ [(PingMessage, [])]\<rparr>)\<rparr>)
            in ((tp, PingTimer) # tr, r))"
      by (rule silent_ping_iter)
    moreover have "(pinged j)\<lparr>WsClient := Some (?ws\<lparr>written := written ?ws @ [(PingMessage, [])]\<rparr>)\<rparr>
        = pinged (Suc j)"
      by (simp add: pinged_def replicate_append_same)
    ultimately show ?thesis
      by (simp add: pd mx Let_def split_beta del: watchdog_silent.simps)
  qed
  have sd: "\<exists>c'. doShutdown (Some ?err) (pinged j) = Done c' \<and> isShutdown c' \<and>
      taken (error c') = taken (error c) @ [?err]" for j
    using assms(4,7-11)
    by (cases "flowControlEngaged c")
       (simp_all add: doShutdown_def closechan_def chansend_def pinged_def)
  have timeout: "\<exists>c'. watchdog_silent (Suc m) pf n u (\<lparr>nextPing = a, nextTimeout = b\<rparr>, pinged j) =
           ([(b, TimeoutTimer)], Exit (\<lparr>nextPing = a, nextTimeout = b\<rparr>, c')) \<and> isShutdown c' \<and>
           taken (error c') = taken (error c) @ [?err]"
    if "u \<le> b" and "b < a \<or> (a = b \<and> \<not> pf)" for m u a b j
  proof -
    let ?d = "\<lparr>nextPing = a, nextTimeout = b\<rparr>"
    from sd [of j] obtain c' where c': "doShutdown (Some ?err) (pinged j) = Done c'"
      "isShutdown c'" "taken (error c') = taken (error c) @ [?err]" by blast
    have mx: "max u a = a" "max u b = b" using that by auto
    have "\<not> closed (pinged j)" "\<not> isShutdown (pinged j)"
      using assms(3,4) by (simp_all add: pinged_def)
    moreover have "\<not> (max u (nextPing ?d) < max u (nextTimeout ?d) \<or>
            (max u (nextPing ?d) = max u (nextTimeout ?d) \<and> pf))"
      unfolding deadlines.simps mx using that(2) by auto
    ultimately have "watchdog_silent (Suc m) pf n u (?d, pinged j) =
           ([(max u (nextTimeout ?d), TimeoutTimer)], Exit (?d, c'))"
      using c'(1) by (rule silent_timeout_iter)
    then have "watchdog_silent (Suc m) pf n u (?d, pinged j) =
           ([(b, TimeoutTimer)], Exit (?d, c'))"
      by (simp add: mx del: watchdog_silent.simps)
    with c'(2,3) show ?thesis by blast
  qed
  have start: "watchdog (Suc m) pf n start c =
      watchdog_silent (Suc m) pf n start
        (\<lparr>nextPing = start + n * ?S, nextTimeout = ?T\<rparr>, pinged 0)"
    for m
    unfolding watchdog_def init p0 ..
  have Teq: "(2 * n + 1) * ?S = n * ?S + n * ?S + ?S"
    by (simp add: algebra_simps)
  have le1: "start + n * ?S \<le> ?T"
    using nS Spos Teq by linarith
  have lt1: "start + n * ?S < ?T \<or> (start + n * ?S = ?T \<and> pf)"
    using nS Spos Teq by linarith
  have lt2: "start + n * ?S + n * ?S < ?T \<or> (start + n * ?S + n * ?S = ?T \<and> pf)"
    using Spos Teq by linarith
  have le0: "start \<le> start + n * ?S" and le0': "start + n * ?S \<le> start + n * ?S + n * ?S"
    and le2: "start + n * ?S + n * ?S \<le> ?T"
    using nS Spos Teq by linarith+
  note step1 = ping [OF le0 lt1, of _ 0]
  note step2 = ping [OF le0' lt2, of _ "Suc 0"]
  let ?two = "[(start + n * ?S, PingTimer), (start + n * ?S + n * ?S, PingTimer)]"
  let ?d2 = "\<lparr>nextPing = start + n * ?S + n * ?S + n * ?S, nextTimeout = ?T\<rparr>"
  have after_two: "\<exists>c'. watchdog (Suc (Suc (Suc (Suc k)))) pf n start c =
        (?two @ [(?T, TimeoutTimer)], Exit (?d2, c')) \<and>
        isShutdown c' \<and> taken (error c') = taken (error c) @ [?err]"
    if "?T < start + n * ?S + n * ?S + n * ?S \<or>
        (start + n * ?S + n * ?S + n * ?S = ?T \<and> \<not> pf)"
  proof -
    from timeout [OF le2 that, of "Suc k" "Suc (Suc 0)"]
    obtain c' where c': "watchdog_silent (Suc (Suc k)) pf n (start + n * ?S + n * ?S)
          (?d2, pinged (Suc (Suc 0))) = ([(?T, TimeoutTimer)], Exit (?d2, c'))"
        "isShutdown c'" "taken (error c') = taken (error c) @ [?err]"
      by blast
    have "watchdog (Suc (Suc (Suc (Suc k)))) pf n start c =
       (?two @ [(?T, TimeoutTimer)], Exit (?d2, c'))"
      by (simp only: start step1 step2 c'(1) fst_conv snd_conv append.simps)
    with c'(2,3) show ?thesis by blast
  qed
  have D: "\<exists>pings d' c'.
            watchdog (Suc (Suc (Suc (Suc k)))) pf n start c =
              (pings @ [(?T, TimeoutTimer)], Exit (d', c')) \<and>
            (\<forall>p \<in> set pings. snd p = PingTimer) \<and>
            start + n * ?S \<le> ?T \<and>
            isShutdown c' \<and>
            taken (error c') = taken (error c) @ [?err]"
  proof (cases "n = 1 \<and> pf")
    case True
    then have one: "n * ?S = ?S" by simp
    let ?three = "?two @ [(start + n * ?S + n * ?S + n * ?S, PingTimer)]"
    let ?d3 = "\<lparr>nextPing = start + n * ?S + n * ?S + n * ?S + n * ?S, nextTimeout = ?T\<rparr>"
    have "start + n * ?S + n * ?S \<le> start + n * ?S + n * ?S + n * ?S"
      and "start + n * ?S + n * ?S + n * ?S < ?T \<or>
           (start + n * ?S + n * ?S + n * ?S = ?T \<and> pf)"
      using nS Teq one True by simp_all
    note step3 = ping [OF this, of _ "Suc (Suc 0)"]
    have "start + n * ?S + n * ?S + n * ?S \<le> ?T"
      and "?T < start + n * ?S + n * ?S + n * ?S + n * ?S \<or>
           (start + n * ?S + n * ?S + n * ?S + n * ?S = ?T \<and> \<not> pf)"
      using nS Teq one by simp_all
    from timeout [OF this, of k "Suc (Suc (Suc 0))"]
    obtain c' where c': "watchdog_silent (Suc k) pf n (start + n * ?S + n * ?S + n * ?S)
          (?d3, pinged (Suc (Suc (Suc 0)))) = ([(?T, TimeoutTimer)], Exit (?d3, c'))"
        "isShutdown c'" "taken (error c') = taken (error c) @ [?err]"
      by blast
    have "watchdog (Suc (Suc (Suc (Suc k)))) pf n start c =
       (?three @ [(?T, TimeoutTimer)], Exit (?d3, c'))"
      by (simp only: start step1 step2 step3 c'(1) fst_conv snd_conv append.simps)
    with c'(2,3) le1 show ?thesis
      by (intro exI [of _ ?three] exI [of _ ?d3] exI [of _ c']) simp
  next
    case False
    have "?T < start + n * ?S + n * ?S + n * ?S \<or>
        (start + n * ?S + n * ?S + n * ?S = ?T \<and> \<not> pf)"
    proof (cases "n = 1")
      case True
      then have "n * ?S = ?S" by simp
      with Teq True False show ?thesis by simp
    next
      case n1: False
      with assms(1) have "2 \<le> n" by simp
      then have "2 * ?S \<le> n * ?S"
        using Spos by (intro mult_right_mono) simp_all
      with Teq Spos have "?T < start + n * ?S + n * ?S + n * ?S" by linarith
      then show ?thesis ..
    qed
    from after_two [OF this] obtain c' where
      "watchdog (Suc (Suc (Suc (Suc k)))) pf n start c =
         (?two @ [(?T, TimeoutTimer)], Exit (?d2, c'))"
      "isShutdown c'" "taken (error c') = taken (error c) @ [?err]"
      by blast
    with le1 show ?thesis
      by (intro exI [of _ ?two] exI [of _ ?d2] exI [of _ c']) simp
  qed
  from A B C D show ?thesis by blast
qed

theorem watchdog_deadlines_and_timeout_witness:
  "nextTimeout (watchdog_init 5 0 0) = 11000000000 \<and>
   watchdog_body 5 7000000000 PongReceived
     (watchdog_init 5 0 0, (connected [])\<lparr>error := chanrecv (error (connected []))\<rparr>) =
     Done (\<lparr>nextPing = 5000000000, nextTimeout = 13000000000\<rparr>,
           (connected [])\<lparr>error := chanrecv (error (connected []))\<rparr>) \<and>
   watchdog (Suc (Suc (Suc (Suc 0)))) True 5 0
     ((connected [])\<lparr>error := chanrecv (error (connected []))\<rparr>) =
     ([(5000000000, PingTimer), (10000000000, PingTimer), (11000000000, TimeoutTimer)],
      Exit (\<lparr>nextPing = 15000000000, nextTimeout = 11000000000\<rparr>,
            (connected [])
              \<lparr>WsClient := Some (healthyConn
                  \<lparr>written := [(BinaryMessage, []), (PingMessage, []), (PingMessage, [])]\<rparr>),
               shutdown := Some ((makechan 0)\<lparr>chClosed := True\<rparr>),
               isShutdown := True,
               error := (makechan 0)\<lparr>taken := [Errorf ''server is not responding, closing'']\<rparr>\<rparr>))"
  using watchdog_deadlines_and_timeout
    [of 5 "(connected [])\<lparr>error := chanrecv (error (connected []))\<rparr>"
        "healthyConn\<lparr>written := [(BinaryMessage, [])]\<rparr>" "makechan 0"
        0 7000000000 "watchdog_init 5 0 0" 0 True]
  by (simp add: connected_eq newClient_def healthyConn_def makechan_def chanrecv_def
      watchdog_def watchdog_init_def watchdog_body_def pingDuration_def timeoutDuration_def
      int64_def Second_def WriteMessage_def doShutdown_def closechan_def chansend_def)

end
